theory Spec2Isabelle
  imports Complex_Main
begin

text \<open>
  The fee calculation module of the Multi-Metal Token App (\<open>fees.js\<close>): the trade
  fees, the SIP fee, the swap fee, the redemption fees, the profit and loss, the
  diversification of a portfolio and the order limits, each function as the source
  computes it.
\<close>

section \<open>Numbers\<close>

text \<open>
  The fee module computes with JavaScript numbers. The model computes with exact
  rationals: every numeric argument is a finite number (a \<open>rat\<close>), and a result that
  the code can make \<open>NaN\<close> from finite arguments has the type \<open>jsnum\<close>. The rounding
  error and the overflow of binary floating point are outside the model.
\<close>

datatype jsnum = Num rat | NaN

text \<open>
  \<open>Math.round(x)\<close> is the integer nearest to \<open>x\<close>, a half rounding up (towards
  plus infinity); \<open>Math.round(NaN)\<close> is \<open>NaN\<close>.
\<close>

definition Math_round :: "rat \<Rightarrow> int" where
  "Math_round x = \<lfloor>x + 1 / 2\<rfloor>"

text \<open>The arithmetic of the code on values that may be \<open>NaN\<close>: \<open>NaN\<close> propagates.\<close>

fun jsnum_map :: "(rat \<Rightarrow> rat) \<Rightarrow> jsnum \<Rightarrow> jsnum" where
  "jsnum_map f (Num x) = Num (f x)"
| "jsnum_map f NaN = NaN"

fun jsnum_map2 :: "(rat \<Rightarrow> rat \<Rightarrow> rat) \<Rightarrow> jsnum \<Rightarrow> jsnum \<Rightarrow> jsnum" where
  "jsnum_map2 f (Num x) (Num y) = Num (f x y)"
| "jsnum_map2 f _ _ = NaN"

text \<open>
  \<open>x / y\<close> on finite numbers whose quotient is finite or \<open>NaN\<close>: \<open>0 / 0\<close> is \<open>NaN\<close>.
  It is used only where the numerator is zero whenever the denominator is
  (a non-zero number over zero would be an infinity, which the model does not have).
\<close>

definition js_div :: "rat \<Rightarrow> rat \<Rightarrow> jsnum" where
  "js_div x y = (if y = 0 then NaN else Num (x / y))"

text \<open>
  The spec's \<open>round2\<close>, in the spec's words: rounding to two decimal places, a half
  rounding away from zero.
\<close>

definition round2 :: "rat \<Rightarrow> rat" where
  "round2 x =
     (if 0 \<le> x then of_int \<lfloor>x * 100 + 1 / 2\<rfloor> / 100
      else - (of_int \<lfloor>- x * 100 + 1 / 2\<rfloor> / 100))"

section \<open>Trade fees: calculateFees\<close>

record FeeBreakdown =
  spreadFee :: rat
  platformFee :: rat
  gst :: rat
  totalFee :: rat
  totalFeePercentage :: jsnum

text \<open>
  \<open>calculateFees({ type, asset, amount, marketPrice, user })\<close>: the fields of the
  argument are the arguments of the model, in the order of the source. The source has
  no guard and no \<open>throw\<close>: it returns a breakdown for every argument.
  \<open>totalFeePercentage\<close> divides by the principal; the numerator is 1.298 percent of
  the principal, so a zero principal gives \<open>0 / 0\<close>.
\<close>

definition calculateFees :: "string \<Rightarrow> string \<Rightarrow> rat \<Rightarrow> rat \<Rightarrow> 'u \<Rightarrow> FeeBreakdown" where
  "calculateFees type asset amount marketPrice user =
     (let principalAmount = amount * marketPrice;
          spreadFee = principalAmount * (1 / 100);
          platformFeeRate = (if type = ''buy'' then 1 / 1000 else 1 / 1000);
          platformFee = principalAmount * platformFeeRate;
          totalFee = spreadFee + platformFee;
          gst = totalFee * (18 / 100)
      in \<lparr> spreadFee = of_int (Math_round (spreadFee * 100)) / 100,
           platformFee = of_int (Math_round (platformFee * 100)) / 100,
           gst = of_int (Math_round (gst * 100)) / 100,
           totalFee = of_int (Math_round ((totalFee + gst) * 100)) / 100,
           totalFeePercentage =
             jsnum_map (\<lambda>q. q * 100) (js_div (spreadFee + platformFee + gst) principalAmount) \<rparr>)"

section \<open>SIP fee: calculateSIPFee\<close>

text \<open>The \<open>switch\<close> compares the frequency with \<open>===\<close>; the default returns the monthly fee.\<close>

definition calculateSIPFee :: "string \<Rightarrow> rat" where
  "calculateSIPFee frequency =
     (let baseMonthlyFee = 50
      in if frequency = ''daily'' then baseMonthlyFee / 30
         else if frequency = ''weekly'' then baseMonthlyFee / 4
         else if frequency = ''monthly'' then baseMonthlyFee
         else baseMonthlyFee)"

section \<open>Swap fee: calculateSwapFee\<close>





section \<open>Property lookup on an object literal\<close>

text \<open>
  \<open>table[key]\<close> on an object literal finds the literal's own property, or else the
  property of that name that every object inherits from \<open>Object.prototype\<close> (a
  function, or for \<open>__proto__\<close> the prototype object itself), or else \<open>undefined\<close>.
  An inherited member is truthy and is no number: \<open>||\<close> keeps it, arithmetic on it
  gives \<open>NaN\<close>, and reading a field of it gives \<open>undefined\<close>.
\<close>

datatype 'a property = Own 'a | Inherited | Undefined

definition Object_prototype_names :: "string list" where
  "Object_prototype_names =
     [''constructor'', ''hasOwnProperty'', ''isPrototypeOf'', ''propertyIsEnumerable'',
      ''toLocaleString'', ''toString'', ''valueOf'', ''__proto__'',
      ''__defineGetter__'', ''__defineSetter__'', ''__lookupGetter__'', ''__lookupSetter__'']"

definition get_property :: "(string \<times> 'a) list \<Rightarrow> string \<Rightarrow> 'a property" where
  "get_property table key =
     (case map_of table key of
        Some v \<Rightarrow> Own v
      | None \<Rightarrow> if key \<in> set Object_prototype_names then Inherited else Undefined)"

section \<open>Redemption fees: calculateRedemptionFees\<close>

definition marketPrices :: "(string \<times> rat) list" where
  "marketPrices = [(''gold'', 6000), (''silver'', 75), (''platinum'', 2800)]"

text \<open>
  \<open>const value = amount * (marketPrices[asset] || 1)\<close>: a price of the table is
  kept when it is truthy (non-zero), \<open>undefined\<close> is replaced by 1, and an inherited
  member is kept by \<open>||\<close> and makes the product \<open>NaN\<close>.
\<close>

definition redemption_value :: "string \<Rightarrow> rat \<Rightarrow> jsnum" where
  "redemption_value asset amount =
     (case get_property marketPrices asset of
        Own p \<Rightarrow> Num (amount * (if p = 0 then 1 else p))
      | Inherited \<Rightarrow> NaN
      | Undefined \<Rightarrow> Num (amount * 1))"

text \<open>\<open>Math.round(x * 100) / 100\<close> on a value that may be \<open>NaN\<close>.\<close>

definition round_cents :: "jsnum \<Rightarrow> jsnum" where
  "round_cents x = jsnum_map (\<lambda>v. of_int (Math_round (v * 100)) / 100) x"

record RedemptionFees =
  deliveryFee :: rat
  insuranceFee :: jsnum
  processingFee :: jsnum
  totalFees :: jsnum
  netValue :: jsnum

definition calculateRedemptionFees :: "string \<Rightarrow> rat \<Rightarrow> string \<Rightarrow> RedemptionFees" where
  "calculateRedemptionFees asset amount deliveryMethod =
     (let val = redemption_value asset amount;
          deliveryFee =
            (if deliveryMethod = ''HOME''
               then (if amount \<le> 10 then 50 else if amount \<le> 50 then 100 else 200)
             else if deliveryMethod = ''STORE'' then 0
             else if deliveryMethod = ''VAULT'' then 25
             else 50);
          insuranceFee = jsnum_map (\<lambda>v. v * (5 / 1000)) val;
          processingFee = jsnum_map (\<lambda>v. v * (1 / 100)) val;
          totalFees = jsnum_map2 (+) (jsnum_map2 (+) (Num deliveryFee) insuranceFee) processingFee
      in \<lparr> deliveryFee = deliveryFee,
           insuranceFee = round_cents insuranceFee,
           processingFee = round_cents processingFee,
           totalFees = round_cents totalFees,
           netValue = jsnum_map2 (-) val totalFees \<rparr>)"

section \<open>Profit and loss: calculateProfitLoss\<close>



section \<open>Diversification: calculateDiversification\<close>





record Allocation =
  weight :: rat
  "value" :: rat



section \<open>Order limits: getMinimumAmounts, getMaximumAmounts\<close>

record ('n, 'u) Limits =
  amount :: 'n
  unit :: 'u
  inr :: 'n

definition minimums :: "(string \<times> (rat, string) Limits) list" where
  "minimums =
     [(''gold'', \<lparr> amount = 1 / 10, unit = ''gram'', inr = 600 \<rparr>),
      (''silver'', \<lparr> amount = 1, unit = ''gram'', inr = 75 \<rparr>),
      (''platinum'', \<lparr> amount = 1 / 10, unit = ''gram'', inr = 280 \<rparr>),
      (''stablecoin'', \<lparr> amount = 100, unit = ''BINR'', inr = 100 \<rparr>)]"

text \<open>
  \<open>x || y\<close> on the result of a lookup whose own values are objects: an object and an
  inherited member are truthy, \<open>undefined\<close> is falsy.
\<close>

fun property_or :: "'a property \<Rightarrow> 'a property \<Rightarrow> 'a property" where
  "property_or Undefined y = y"
| "property_or x y = x"

text \<open>
  \<open>minimums[asset] || minimums.gold\<close>. The result is the value the source returns:
  an entry of the table, or for an inherited name the inherited member.
\<close>

definition getMinimumAmounts :: "string \<Rightarrow> (rat, string) Limits property" where
  "getMinimumAmounts asset =
     property_or (get_property minimums asset) (get_property minimums ''gold'')"

definition baseMaximums :: "(string \<times> (rat, string) Limits) list" where
  "baseMaximums =
     [(''gold'', \<lparr> amount = 1000, unit = ''gram'', inr = 6000000 \<rparr>),
      (''silver'', \<lparr> amount = 50000, unit = ''gram'', inr = 3750000 \<rparr>),
      (''platinum'', \<lparr> amount = 1000, unit = ''gram'', inr = 2800000 \<rparr>),
      (''stablecoin'', \<lparr> amount = 10000000, unit = ''BINR'', inr = 10000000 \<rparr>)]"

text \<open>
  Of the user the function reads \<open>kycLevel\<close>, a number. The keys of
  \<open>levelMultipliers\<close> are the numbers 1 to 4, and every multiplier is truthy.
\<close>

record User =
  kycLevel :: rat

definition levelMultipliers :: "(rat \<times> rat) list" where
  "levelMultipliers = [(1, 1 / 10), (2, 1 / 2), (3, 1), (4, 2)]"

text \<open>The one error the module can raise: reading a property of \<open>undefined\<close>.\<close>

datatype error = TypeError

text \<open>
  \<open>baseMaximums[asset]\<close> has no fallback. For a name that is no property,
  \<open>baseMax.amount\<close> reads a property of \<open>undefined\<close> and throws. For an inherited name
  the fields \<open>amount\<close>, \<open>unit\<close> and \<open>inr\<close> of the inherited member are \<open>undefined\<close>:
  the products are \<open>NaN\<close> and the unit is missing.
\<close>

definition getMaximumAmounts :: "string \<Rightarrow> User \<Rightarrow> error + (jsnum, string option) Limits" where
  "getMaximumAmounts asset user =
     (let baseMax = get_property baseMaximums asset;
          multiplier = (case map_of levelMultipliers (kycLevel user) of
                          Some m \<Rightarrow> m
                        | None \<Rightarrow> 1 / 10)
      in case baseMax of
           Undefined \<Rightarrow> Inl TypeError
         | Inherited \<Rightarrow> Inr \<lparr> amount = NaN, unit = None, inr = NaN \<rparr>
         | Own b \<Rightarrow> Inr \<lparr> amount = Num (amount b * multiplier),
                            unit = Some (unit b),
                            inr = Num (inr b * multiplier) \<rparr>)"

section \<open>Properties of the trade fees\<close>







text \<open>
  C9. For every quantity > 0 and midPrice > 0 the totalFeePercentage of the breakdown
  is 1.298 in exact arithmetic, whatever the trade type, the quantity and the price.
\<close>

theorem calculateFees_percentage_constant:
  assumes "0 < quantity" and "0 < midPrice"
  shows "totalFeePercentage (calculateFees type asset quantity midPrice user)
           = Num (1298 / 1000)"
  using assms by (simp add: calculateFees_def Let_def js_div_def field_simps)

theorem calculateFees_percentage_constant_witness:
  "totalFeePercentage (calculateFees ''buy'' ''gold'' 2 6000 ()) = Num (1298 / 1000)"
proof -
  have q: "(0::rat) < 2" and p: "(0::rat) < 6000"
    by simp_all
  show ?thesis
    by (rule calculateFees_percentage_constant [OF q p])
qed

section \<open>Properties of the SIP fee\<close>

text \<open>
  C7. The SIP fee is a function of the frequency only: the monthly fee is 50, four
  weekly fees and thirty daily fees are 50 each, the weekly and daily fees are the
  unrounded quotients 50/4 and 50/30, and every frequency outside daily, weekly and
  monthly gives the monthly fee of 50.
\<close>

theorem calculateSIPFee_values:
  assumes "frequency \<notin> {''daily'', ''weekly'', ''monthly''}"
  shows "calculateSIPFee ''monthly'' = 50 \<and>
         calculateSIPFee ''weekly'' * 4 = 50 \<and>
         calculateSIPFee ''daily'' * 30 = 50 \<and>
         calculateSIPFee ''weekly'' = 50 / 4 \<and>
         calculateSIPFee ''daily'' = 50 / 30 \<and>
         calculateSIPFee frequency = 50"
  using assms by (simp add: calculateSIPFee_def Let_def)

theorem calculateSIPFee_values_witness:
  "calculateSIPFee ''monthly'' = 50 \<and>
   calculateSIPFee ''weekly'' * 4 = 50 \<and>
   calculateSIPFee ''daily'' * 30 = 50 \<and>
   calculateSIPFee ''weekly'' = 50 / 4 \<and>
   calculateSIPFee ''daily'' = 50 / 30 \<and>
   calculateSIPFee ''yearly'' = 50"
proof -
  have h: "''yearly'' \<notin> {''daily'', ''weekly'', ''monthly''}"
    by simp
  show ?thesis
    by (rule calculateSIPFee_values [OF h])
qed

section \<open>Properties of the swap fee\<close>



section \<open>Properties of the redemption fees\<close>

text \<open>
  C4. Redeeming 60 grams of silver by home delivery: the value is 4500 (75 per gram),
  the delivery fee 200, the insurance fee 22.5, the processing fee 45, the total fees
  267.5 and the net value 4232.5. For every asset and quantity the home delivery fee is
  50 up to 10 grams, 100 up to 50 grams and 200 above.
\<close>

theorem calculateRedemptionFees_silver_home:
  "redemption_value ''silver'' 60 = Num 4500 \<and>
   calculateRedemptionFees ''silver'' 60 ''HOME'' =
     \<lparr> deliveryFee = 200, insuranceFee = Num (225 / 10), processingFee = Num 45,
       totalFees = Num (2675 / 10), netValue = Num (42325 / 10) \<rparr> \<and>
   deliveryFee (calculateRedemptionFees asset quantityGrams ''HOME'')
     = (if quantityGrams \<le> 10 then 50 else if quantityGrams \<le> 50 then 100 else 200)"
proof -
  have v: "redemption_value ''silver'' 60 = Num 4500"
    by code_simp
  have r: "calculateRedemptionFees ''silver'' 60 ''HOME'' =
             \<lparr> deliveryFee = 200, insuranceFee = Num (225 / 10), processingFee = Num 45,
               totalFees = Num (2675 / 10), netValue = Num (42325 / 10) \<rparr>"
    by code_simp
  have d: "deliveryFee (calculateRedemptionFees asset quantityGrams ''HOME'')
             = (if quantityGrams \<le> 10 then 50 else if quantityGrams \<le> 50 then 100 else 200)"
    by (simp add: calculateRedemptionFees_def Let_def)
  from v r d show ?thesis
    by blast
qed

text \<open>
  A name that is no key of a table and no name of \<open>Object.prototype\<close> looks up
  \<open>undefined\<close>.
\<close>

lemma get_property_unlisted:
  assumes "key \<notin> fst ` set table" and "key \<notin> set Object_prototype_names"
  shows "get_property table key = Undefined"
proof -
  from assms(1) have "map_of table key = None"
    by (simp add: map_of_eq_None_iff)
  with assms(2) show ?thesis
    by (simp add: get_property_def)
qed

text \<open>
  For an asset outside gold, silver and platinum whose name no object inherits, the
  fallback price 1 applies: the value is the quantity, and for a quantity >= 0 the
  insurance and processing fees are round2 of 0.5 and 1 percent of it.
\<close>

lemma calculateRedemptionFees_fallback_price:
  assumes "asset \<notin> {''gold'', ''silver'', ''platinum''}"
    and "asset \<notin> set Object_prototype_names"
    and "0 \<le> quantityGrams"
  shows "redemption_value asset quantityGrams = Num quantityGrams \<and>
         insuranceFee (calculateRedemptionFees asset quantityGrams deliveryMethod)
           = Num (round2 (quantityGrams * (5 / 1000))) \<and>
         processingFee (calculateRedemptionFees asset quantityGrams deliveryMethod)
           = Num (round2 (quantityGrams * (1 / 100)))"
proof -
  from assms(1,2) have "get_property marketPrices asset = Undefined"
    by (intro get_property_unlisted) (simp_all add: marketPrices_def)
  then have v: "redemption_value asset quantityGrams = Num quantityGrams"
    by (simp add: redemption_value_def)
  with assms(3) show ?thesis
    by (simp add: calculateRedemptionFees_def Let_def round_cents_def round2_def Math_round_def)
qed

text \<open>
  C10, at the failing input. \<open>toString\<close> is outside gold, silver and platinum, and
  every object inherits a property of that name: \<open>marketPrices[asset] || 1\<close> is the
  inherited function, the value is NaN and not the quantity 5, and so are the fees
  computed from it.
\<close>

theorem calculateRedemptionFees_inherited_name:
  "''toString'' \<notin> {''gold'', ''silver'', ''platinum''} \<and>
   redemption_value ''toString'' 5 = NaN \<and>
   calculateRedemptionFees ''toString'' 5 ''HOME'' =
     \<lparr> deliveryFee = 50, insuranceFee = NaN, processingFee = NaN, totalFees = NaN,
       netValue = NaN \<rparr>"
  by code_simp

section \<open>Properties of the profit and loss\<close>





section \<open>Properties of the diversification\<close>





section \<open>Properties of the order limits\<close>

text \<open>
  C6, as the code has it. For an asset name outside gold, silver, platinum and
  stablecoin (and none of the names every object inherits) the minimum lookup does not
  fail: it returns the minimums of gold, 0.1 gram and 600 INR. The maximum lookup has
  no fallback and fails, with a TypeError: the module has no error of its own.
\<close>

theorem order_limits_unknown_asset:
  assumes "asset \<notin> {''gold'', ''silver'', ''platinum'', ''stablecoin''}"
    and "asset \<notin> set Object_prototype_names"
  shows "getMinimumAmounts asset = Own \<lparr> amount = 1 / 10, unit = ''gram'', inr = 600 \<rparr> \<and>
         getMaximumAmounts asset user = Inl TypeError"
proof -
  from assms have "get_property minimums asset = Undefined"
    by (intro get_property_unlisted) (simp_all add: minimums_def)
  moreover from assms have "get_property baseMaximums asset = Undefined"
    by (intro get_property_unlisted) (simp_all add: baseMaximums_def)
  moreover have "get_property minimums ''gold''
                   = Own \<lparr> amount = 1 / 10, unit = ''gram'', inr = 600 \<rparr>"
    by (simp add: get_property_def minimums_def)
  ultimately show ?thesis
    by (simp add: getMinimumAmounts_def getMaximumAmounts_def Let_def)
qed

theorem order_limits_unknown_asset_witness:
  "getMinimumAmounts ''copper'' = Own \<lparr> amount = 1 / 10, unit = ''gram'', inr = 600 \<rparr> \<and>
   getMaximumAmounts ''copper'' \<lparr> kycLevel = 2 \<rparr> = Inl TypeError"
proof -
  have a: "''copper'' \<notin> {''gold'', ''silver'', ''platinum'', ''stablecoin''}"
    by simp
  have b: "''copper'' \<notin> set Object_prototype_names"
    by (simp add: Object_prototype_names_def)
  show ?thesis
    by (rule order_limits_unknown_asset [OF a b])
qed

text \<open>
  C6 as stated fails: the minimum lookup of copper, which is no asset of the
  enumeration, returns limit values, those of gold.
\<close>

theorem getMinimumAmounts_fallback_counterexample:
  "''copper'' \<notin> {''gold'', ''silver'', ''platinum'', ''stablecoin''} \<and>
   getMinimumAmounts ''copper'' = Own \<lparr> amount = 1 / 10, unit = ''gram'', inr = 600 \<rparr>"
  by code_simp

end
